theory Spec2Isabelle
  imports Main "HOL-Library.Word"
begin

section \<open>Go strings\<close>

text \<open>
  A Go string is a sequence of bytes; a HOL \<open>string\<close> is a list of 8-bit characters, so
  \<open>length\<close> is \<open>len\<close> and every function of package \<open>strings\<close> used by the
  repository is modelled on bytes, as the library computes it.
\<close>

text \<open>\<open>strings.HasPrefix(s, prefix)\<close>: \<open>len(s) >= len(prefix) && s[:len(prefix)] == prefix\<close>.\<close>

definition HasPrefix :: "string \<Rightarrow> string \<Rightarrow> bool" where
  "HasPrefix s pre = (length pre \<le> length s \<and> take (length pre) s = pre)"

text \<open>\<open>strings.TrimPrefix(s, prefix)\<close>.\<close>

definition TrimPrefix :: "string \<Rightarrow> string \<Rightarrow> string" where
  "TrimPrefix s pre = (if HasPrefix s pre then drop (length pre) s else s)"

text \<open>
  \<open>strings.Index(s, substr)\<close>: the byte index of the first occurrence of \<open>substr\<close> in
  \<open>s\<close>, or \<open>-1\<close>; the empty \<open>substr\<close> occurs at index 0.
\<close>

fun Index :: "string \<Rightarrow> string \<Rightarrow> int" where
  "Index [] substr = (if substr = [] then 0 else - 1)"
| "Index (c # s) substr =
     (if HasPrefix (c # s) substr then 0
      else (let r = Index s substr in if r < 0 then - 1 else r + 1))"

text \<open>\<open>strings.Contains(s, substr)\<close> is \<open>Index(s, substr) >= 0\<close>.\<close>

definition Contains :: "string \<Rightarrow> string \<Rightarrow> bool" where
  "Contains s substr = (0 \<le> Index s substr)"

text \<open>
  \<open>strings.TrimSpace\<close> removes leading and trailing white space as defined by Unicode
  (\<open>unicode.IsSpace\<close>). On the bytes of the string, a leading (trailing) rune is white
  space exactly when the string starts (ends) with the UTF-8 encoding of one of the code
  points U+0009..U+000D, U+0020, U+0085, U+00A0, U+1680, U+2000..U+200A, U+2028, U+2029,
  U+202F, U+205F, U+3000; an invalid byte decodes to U+FFFD, which is not white space.
\<close>

definition whiteSpace :: "string list" where
  "whiteSpace =
    [[CHR 0x09], [CHR 0x0A], [CHR 0x0B], [CHR 0x0C], [CHR 0x0D], [CHR 0x20],
     [CHR 0xC2, CHR 0x85], [CHR 0xC2, CHR 0xA0],
     [CHR 0xE1, CHR 0x9A, CHR 0x80],
     [CHR 0xE2, CHR 0x80, CHR 0x80], [CHR 0xE2, CHR 0x80, CHR 0x81],
     [CHR 0xE2, CHR 0x80, CHR 0x82], [CHR 0xE2, CHR 0x80, CHR 0x83],
     [CHR 0xE2, CHR 0x80, CHR 0x84], [CHR 0xE2, CHR 0x80, CHR 0x85],
     [CHR 0xE2, CHR 0x80, CHR 0x86], [CHR 0xE2, CHR 0x80, CHR 0x87],
     [CHR 0xE2, CHR 0x80, CHR 0x88], [CHR 0xE2, CHR 0x80, CHR 0x89],
     [CHR 0xE2, CHR 0x80, CHR 0x8A],
     [CHR 0xE2, CHR 0x80, CHR 0xA8], [CHR 0xE2, CHR 0x80, CHR 0xA9],
     [CHR 0xE2, CHR 0x80, CHR 0xAF], [CHR 0xE2, CHR 0x81, CHR 0x9F],
     [CHR 0xE3, CHR 0x80, CHR 0x80]]"

text \<open>
  Removing leading runes: as long as the string starts with one of the encodings \<open>ws\<close>,
  drop it. An encoding that is empty drops nothing and ends the loop.
\<close>

function trimLeading :: "string list \<Rightarrow> string \<Rightarrow> string" where
  "trimLeading ws s =
     (case find (HasPrefix s) ws of
        None \<Rightarrow> s
      | Some w \<Rightarrow> (if w = [] then s else trimLeading ws (drop (length w) s)))"
  by pat_completeness auto
termination
proof (relation "measure (\<lambda>(ws, s). length s)")
  show "wf (measure (\<lambda>(ws, s). length s))" by simp
next
  fix ws :: "string list" and s w :: string
  assume f: "find (HasPrefix s) ws = Some w" and ne: "w \<noteq> []"
  from f have "HasPrefix s w" by (auto simp: find_Some_iff)
  with ne have "s \<noteq> []" by (auto simp: HasPrefix_def)
  with ne show "((ws, drop (length w) s), (ws, s)) \<in> measure (\<lambda>(ws, s). length s)"
    by simp
qed

declare trimLeading.simps [simp del]

text \<open>Trailing runes are removed the same way on the reversed bytes.\<close>

definition TrimSpace :: "string \<Rightarrow> string" where
  "TrimSpace s = rev (trimLeading (map rev whiteSpace) (rev (trimLeading whiteSpace s)))"

section \<open>The generic node model (package ast)\<close>

text \<open>
  \<open>type NodeType string\<close> with its declared constants. A hand-built node may carry any
  string, so the type stays \<open>string\<close>.
\<close>

type_synonym NodeType = string

definition NodeTypeFunction :: NodeType where "NodeTypeFunction = ''function''"
definition NodeTypeArrowFunction :: NodeType where "NodeTypeArrowFunction = ''arrow_function''"
definition NodeTypeMethod :: NodeType where "NodeTypeMethod = ''method''"
definition NodeTypeInterface :: NodeType where "NodeTypeInterface = ''interface''"
definition NodeTypeTypeAlias :: NodeType where "NodeTypeTypeAlias = ''type_alias''"
definition NodeTypeExpression :: NodeType where "NodeTypeExpression = ''expression''"
definition NodeTypeIdentifier :: NodeType where "NodeTypeIdentifier = ''identifier''"
definition NodeTypeLiteral :: NodeType where "NodeTypeLiteral = ''literal''"
definition NodeTypeProperty :: NodeType where "NodeTypeProperty = ''property''"
definition NodeTypeParameter :: NodeType where "NodeTypeParameter = ''parameter''"
definition NodeTypeUnknown :: NodeType where "NodeTypeUnknown = ''unknown''"

text \<open>\<open>Position\<close>, three \<open>uint32\<close> fields, and \<open>Range\<close>, a pair of positions.\<close>

record Position =
  Line :: "32 word"
  Column :: "32 word"
  Offset :: "32 word"

record SourceRange =
  Start :: Position
  End :: Position

text \<open>
  \<open>BaseNode\<close>: \<open>NodeType\<close>, \<open>Content\<close>, \<open>ChildNodes\<close> and \<open>SourceRange\<close>; the methods
  \<open>Type()\<close>, \<open>Text()\<close>, \<open>Children()\<close> and \<open>Range()\<close> return these fields. The fifth
  field, \<open>ParentNode\<close>, is a back-pointer: a node owns its children and points back at
  the node that holds it. The tree of owned children is the datatype; the back-pointer
  is modelled where it is followed (section Analyzer).
\<close>

datatype BaseNode =
  BaseNode (Type: NodeType) (Text: string) (Children: "BaseNode list") (Range: SourceRange)

section \<open>The parsing engine (external)\<close>

text \<open>
  The engine is tree-sitter, reached through its Go binding. A node of its tree exposes
  \<open>Kind()\<close>, \<open>StartByte()\<close>, \<open>EndByte()\<close>, \<open>StartPosition()\<close>, \<open>EndPosition()\<close>,
  \<open>ChildCount()\<close> and \<open>Child(i)\<close>. Offsets, rows and columns are \<open>uint32_t\<close> in the
  engine and widened to \<open>uint\<close> by the binding, so the conversions \<open>uint32(...)\<close> of
  \<open>convertNode\<close> lose nothing. \<open>Child(i)\<close> may be \<open>nil\<close>.
\<close>

record Point =
  Row :: "32 word"
  Col :: "32 word"

datatype TSNode =
  TSNode (Kind: string) (StartByte: "32 word") (EndByte: "32 word")
    (StartPosition: Point) (EndPosition: Point) (Child: "TSNode option list")

text \<open>\<open>*sitter.Tree\<close> with \<open>RootNode()\<close>, which may be \<open>nil\<close>.\<close>

datatype TSTree = TSTree (RootNode: "TSNode option")

text \<open>
  \<open>Parser.parser.Parse(source, nil)\<close>: the engine as a function of the source, returning
  a tree or \<open>nil\<close>.
\<close>

type_synonym Parser = "string \<Rightarrow> TSTree option"

section \<open>The taxonomy classifier\<close>

text \<open>\<open>isExpressionType\<close>, first version: a loop over a slice of eight tags.\<close>

definition expressionTypes_slice :: "string list" where
  "expressionTypes_slice =
    [''binary_expression'', ''unary_expression'', ''call_expression'', ''member_expression'',
     ''assignment_expression'', ''ternary_expression'', ''new_expression'',
     ''await_expression'']"

fun isExpressionType_loop :: "string list \<Rightarrow> string \<Rightarrow> bool" where
  "isExpressionType_loop [] tsType = False"
| "isExpressionType_loop (et # ets) tsType =
     (if tsType = et then True else isExpressionType_loop ets tsType)"

definition isExpressionType :: "string \<Rightarrow> bool" where
  "isExpressionType tsType = isExpressionType_loop expressionTypes_slice tsType"

text \<open>\<open>mapNodeType\<close>, first version: a \<open>switch\<close> on the tag with a \<open>default\<close> branch.\<close>

definition mapNodeType :: "string \<Rightarrow> NodeType" where
  "mapNodeType tsType =
     (if tsType = ''function_declaration'' then NodeTypeFunction
      else if tsType = ''arrow_function'' then NodeTypeArrowFunction
      else if tsType = ''method_definition'' then NodeTypeMethod
      else if tsType = ''interface_declaration'' then NodeTypeInterface
      else if tsType = ''type_alias_declaration'' then NodeTypeTypeAlias
      else if tsType = ''identifier'' then NodeTypeIdentifier
      else if tsType = ''property_signature'' then NodeTypeProperty
      else if tsType = ''formal_parameters'' \<or> tsType = ''required_parameter''
              \<or> tsType = ''optional_parameter'' then NodeTypeParameter
      else if tsType = ''string'' \<or> tsType = ''number'' \<or> tsType = ''true''
              \<or> tsType = ''false'' \<or> tsType = ''null'' \<or> tsType = ''undefined''
           then NodeTypeLiteral
      else if isExpressionType tsType then NodeTypeExpression
      else NodeTypeUnknown)"

text \<open>
  Second version: the package-level maps \<open>nodeTypeMap\<close> and \<open>expressionTypes\<close>. A Go map
  literal with distinct keys is the finite map of its entries; indexing
  \<open>expressionTypes[tsType]\<close> yields \<open>false\<close> for a missing key.
\<close>

definition nodeTypeMap :: "string \<rightharpoonup> NodeType" where
  "nodeTypeMap = map_of
    [(''function_declaration'', NodeTypeFunction),
     (''arrow_function'', NodeTypeArrowFunction),
     (''method_definition'', NodeTypeMethod),
     (''interface_declaration'', NodeTypeInterface),
     (''type_alias_declaration'', NodeTypeTypeAlias),
     (''identifier'', NodeTypeIdentifier),
     (''property_signature'', NodeTypeProperty),
     (''formal_parameters'', NodeTypeParameter),
     (''required_parameter'', NodeTypeParameter),
     (''optional_parameter'', NodeTypeParameter),
     (''string'', NodeTypeLiteral),
     (''number'', NodeTypeLiteral),
     (''true'', NodeTypeLiteral),
     (''false'', NodeTypeLiteral),
     (''null'', NodeTypeLiteral),
     (''undefined'', NodeTypeLiteral)]"

definition expressionTypes :: "string \<rightharpoonup> bool" where
  "expressionTypes = map_of
    [(''binary_expression'', True),
     (''unary_expression'', True),
     (''call_expression'', True),
     (''member_expression'', True),
     (''assignment_expression'', True),
     (''ternary_expression'', True),
     (''new_expression'', True),
     (''await_expression'', True)]"

definition isExpressionType_map :: "string \<Rightarrow> bool" where
  "isExpressionType_map tsType = (case expressionTypes tsType of None \<Rightarrow> False | Some b \<Rightarrow> b)"

definition mapNodeType_map :: "string \<Rightarrow> NodeType" where
  "mapNodeType_map tsType =
     (case nodeTypeMap tsType of
        Some nodeType \<Rightarrow> nodeType
      | None \<Rightarrow>
          (if (case expressionTypes tsType of None \<Rightarrow> False | Some b \<Rightarrow> b)
           then NodeTypeExpression
           else NodeTypeUnknown))"

section \<open>Panics\<close>

text \<open>
  A Go function either returns or panics at run time; the only panic the modelled code
  can raise is a slice expression out of range.
\<close>

datatype 'a outcome = Panics | Returns 'a

text \<open>
  The slice expression \<open>s[lo:hi]\<close> on the bytes of the source. It panics unless
  \<open>lo <= hi <= len(s)\<close>; bytes between the length and the capacity of a buffer are not
  modelled.
\<close>

definition slice :: "string \<Rightarrow> nat \<Rightarrow> nat \<Rightarrow> string outcome" where
  "slice s lo hi = (if lo \<le> hi \<and> hi \<le> length s then Returns (take (hi - lo) (drop lo s)) else Panics)"

section \<open>The parser: conversion of the engine's tree\<close>

text \<open>
  \<open>convertNode(node, source, parent)\<close>. A \<open>nil\<close> node converts to \<open>nil\<close>. Otherwise the
  node is built from the kind, the bytes \<open>source[StartByte:EndByte]\<close> and the positions,
  and the children are converted in order by \<open>convertChildren\<close>, the loop over
  \<open>Child(i)\<close>: a \<open>nil\<close> child and a child converted to \<open>nil\<close> are skipped, every other
  one is appended to \<open>ChildNodes\<close>. The argument \<open>parent\<close> only sets the back-pointer
  \<open>ParentNode\<close> of the new node to the node that receives it as a child.
\<close>

fun convertNode :: "TSNode option \<Rightarrow> string \<Rightarrow> BaseNode option outcome"
  and convertChildren :: "TSNode option list \<Rightarrow> string \<Rightarrow> BaseNode list \<Rightarrow> BaseNode list outcome"
where
  "convertNode None source = Returns None"
| "convertNode (Some (TSNode kind sb eb sp ep cs)) source =
     (case slice source (unat sb) (unat eb) of
        Panics \<Rightarrow> Panics
      | Returns content \<Rightarrow>
          (case convertChildren cs source [] of
             Panics \<Rightarrow> Panics
           | Returns childNodes \<Rightarrow>
               Returns (Some (BaseNode (mapNodeType kind) content childNodes
                 \<lparr>Start = \<lparr>Line = Row sp, Column = Col sp, Offset = sb\<rparr>,
                  End = \<lparr>Line = Row ep, Column = Col ep, Offset = eb\<rparr>\<rparr>))))"
| "convertChildren [] source childNodes = Returns childNodes"
| "convertChildren (None # rest) source childNodes = convertChildren rest source childNodes"
| "convertChildren (Some child # rest) source childNodes =
     (case convertNode (Some child) source of
        Panics \<Rightarrow> Panics
      | Returns None \<Rightarrow> convertChildren rest source childNodes
      | Returns (Some childNode) \<Rightarrow> convertChildren rest source (childNodes @ [childNode]))"

text \<open>
  \<open>Parse\<close> returns a pair of a node pointer and an error; an error built by
  \<open>fmt.Errorf\<close> is modelled by its message, \<open>nil\<close> by \<open>None\<close>.
\<close>

type_synonym error = string

definition Parse :: "Parser \<Rightarrow> string \<Rightarrow> (BaseNode option \<times> error option) outcome" where
  "Parse p source =
     (if length source = 0 then Returns (None, Some ''source code is empty'')
      else
        (case p source of
           None \<Rightarrow> Returns (None, Some ''failed to parse source code'')
         | Some tree \<Rightarrow>
             (case RootNode tree of
                None \<Rightarrow> Returns (None, Some ''failed to get root node'')
              | Some root \<Rightarrow>
                  (case convertNode (Some root) source of
                     Panics \<Rightarrow> Panics
                   | Returns node \<Rightarrow> Returns (node, None)))))"

section \<open>The statement reconstructor\<close>

text \<open>
  The statement structs that the reconstructor builds, each with the embedded node and
  the fields its builder sets; every other field of the struct keeps its zero value
  (\<open>nil\<close>, the empty string, or a slice made with length 0). The structs
  \<open>BlockStatement\<close>, \<open>EmptyStatement\<close>, \<open>LabeledStatement\<close>, \<open>WithStatement\<close> and
  \<open>DebuggerStatement\<close> are declared but never built.
\<close>

datatype Statement =
    VariableStatement BaseNode (Kind: string)
  | FunctionDeclaration BaseNode (Name: string) (IsAsync: bool) (IsExported: bool) (IsGenerator: bool)
  | ClassDeclaration BaseNode string bool bool
  | IfStatement BaseNode
  | WhileStatement BaseNode
  | ForStatement BaseNode
  | ForInStatement BaseNode
  | ForOfStatement BaseNode (IsAwait: bool)
  | SwitchStatement BaseNode
  | TryStatement BaseNode
  | ReturnStatement BaseNode
  | ThrowStatement BaseNode
  | BreakStatement BaseNode
  | ContinueStatement BaseNode
  | ExpressionStatement BaseNode
  | ImportDeclaration BaseNode
  | ExportDeclaration BaseNode (IsDefault: bool)
  | EnumDeclaration BaseNode bool bool
  | NamespaceDeclaration BaseNode bool

text \<open>The loop "return the text of the first child tagged Identifier".\<close>

definition firstIdentifier :: "BaseNode list \<Rightarrow> BaseNode option" where
  "firstIdentifier children = find (\<lambda>child. Type child = NodeTypeIdentifier) children"

text \<open>
  \<open>extractFunctionName\<close>. The slice \<open>text[:idx]\<close> is taken with \<open>0 < idx\<close> an index
  returned by \<open>Index\<close>, hence in range.
\<close>

definition extractFunctionName :: "BaseNode \<Rightarrow> string" where
  "extractFunctionName node =
     (case firstIdentifier (Children node) of
        Some child \<Rightarrow> Text child
      | None \<Rightarrow>
          (let text0 = TrimSpace (Text node);
               text1 = (if HasPrefix text0 ''async '' then TrimSpace (TrimPrefix text0 ''async '')
                        else text0);
               text2 = (if HasPrefix text1 ''function '' then TrimPrefix text1 ''function ''
                        else if HasPrefix text1 ''function*'' then TrimPrefix text1 ''function*''
                        else text1);
               text3 = TrimSpace text2;
               idx = Index text3 ''(''
           in if 0 < idx then TrimSpace (take (nat idx) text3) else []))"

text \<open>\<open>extractClassName\<close>, with its loop over the four delimiters.\<close>

fun classNameBefore :: "string list \<Rightarrow> string \<Rightarrow> string" where
  "classNameBefore [] text = TrimSpace text"
| "classNameBefore (delim # delims) text =
     (let idx = Index text delim
      in if 0 < idx then TrimSpace (take (nat idx) text) else classNameBefore delims text)"

definition extractClassName :: "BaseNode \<Rightarrow> string" where
  "extractClassName node =
     (case firstIdentifier (Children node) of
        Some child \<Rightarrow> Text child
      | None \<Rightarrow>
          (let text0 = TrimSpace (Text node);
               text1 = (if HasPrefix text0 ''abstract '' then TrimSpace (TrimPrefix text0 ''abstract '')
                        else text0);
               text2 = (if HasPrefix text1 ''class '' then TrimPrefix text1 ''class '' else text1);
               text3 = TrimSpace text2
           in classNameBefore [''{'', '' extends'', '' implements'', ''<''] text3))"

definition buildVariableStatement :: "BaseNode \<Rightarrow> Statement" where
  "buildVariableStatement node =
     (let text = Text node;
          kind = (if Contains text ''const '' then ''const''
                  else if Contains text ''let '' then ''let''
                  else ''var'')
      in VariableStatement node kind)"

definition buildFunctionDeclaration :: "BaseNode \<Rightarrow> Statement" where
  "buildFunctionDeclaration node =
     (let text = Text node
      in FunctionDeclaration node (extractFunctionName node)
           (Contains text ''async '')
           (HasPrefix (TrimSpace text) ''export '')
           (Contains text ''function*''))"

definition buildClassDeclaration :: "BaseNode \<Rightarrow> Statement" where
  "buildClassDeclaration node =
     (let text = Text node
      in ClassDeclaration node (extractClassName node)
           (Contains text ''abstract '')
           (HasPrefix (TrimSpace text) ''export ''))"

definition buildForStatement :: "BaseNode \<Rightarrow> Statement" where
  "buildForStatement node =
     (let text = Text node
      in if Contains text '' of '' then ForOfStatement node (Contains text ''await '')
         else if Contains text '' in '' then ForInStatement node
         else ForStatement node)"

definition buildExportDeclaration :: "BaseNode \<Rightarrow> Statement" where
  "buildExportDeclaration node = ExportDeclaration node (Contains (Text node) ''export default'')"

definition buildEnumDeclaration :: "BaseNode \<Rightarrow> Statement" where
  "buildEnumDeclaration node =
     (let text = Text node
      in EnumDeclaration node (Contains text ''const enum'') (HasPrefix (TrimSpace text) ''export ''))"

definition buildNamespaceDeclaration :: "BaseNode \<Rightarrow> Statement" where
  "buildNamespaceDeclaration node =
     NamespaceDeclaration node (HasPrefix (TrimSpace (Text node)) ''export '')"

text \<open>
  \<open>buildStatement\<close>: \<open>nil\<close> for a \<open>nil\<close> node, otherwise the first rule that matches, in
  the order of the source. The type assertion \<open>node.(*ast.BaseNode)\<close> holds for every
  node of the model. The builders that only embed the node are the constructors.
\<close>

definition buildStatement :: "BaseNode option \<Rightarrow> Statement option" where
  "buildStatement nodePtr =
     (case nodePtr of
        None \<Rightarrow> None
      | Some baseNode \<Rightarrow>
         (let text = Text baseNode in
          if HasPrefix (TrimSpace text) ''const '' \<or> HasPrefix (TrimSpace text) ''let ''
               \<or> HasPrefix (TrimSpace text) ''var ''
            then Some (buildVariableStatement baseNode)
          else if HasPrefix (TrimSpace text) ''function ''
               \<or> HasPrefix (TrimSpace text) ''async function''
            then Some (buildFunctionDeclaration baseNode)
          else if HasPrefix (TrimSpace text) ''class ''
               \<or> HasPrefix (TrimSpace text) ''abstract class''
            then Some (buildClassDeclaration baseNode)
          else if HasPrefix (TrimSpace text) ''if '' \<or> HasPrefix (TrimSpace text) ''if(''
            then Some (IfStatement baseNode)
          else if HasPrefix (TrimSpace text) ''while '' \<or> HasPrefix (TrimSpace text) ''while(''
            then Some (WhileStatement baseNode)
          else if HasPrefix (TrimSpace text) ''for '' \<or> HasPrefix (TrimSpace text) ''for(''
            then Some (buildForStatement baseNode)
          else if HasPrefix (TrimSpace text) ''switch '' \<or> HasPrefix (TrimSpace text) ''switch(''
            then Some (SwitchStatement baseNode)
          else if HasPrefix (TrimSpace text) ''try '' \<or> HasPrefix (TrimSpace text) ''try{''
            then Some (TryStatement baseNode)
          else if HasPrefix (TrimSpace text) ''return''
            then Some (ReturnStatement baseNode)
          else if HasPrefix (TrimSpace text) ''throw ''
            then Some (ThrowStatement baseNode)
          else if HasPrefix (TrimSpace text) ''break''
            then Some (BreakStatement baseNode)
          else if HasPrefix (TrimSpace text) ''continue''
            then Some (ContinueStatement baseNode)
          else if HasPrefix (TrimSpace text) ''import ''
            then Some (ImportDeclaration baseNode)
          else if HasPrefix (TrimSpace text) ''export ''
            then Some (buildExportDeclaration baseNode)
          else if Contains text ''enum ''
            then Some (buildEnumDeclaration baseNode)
          else if Contains text ''namespace ''
            then Some (buildNamespaceDeclaration baseNode)
          else if 0 < length (TrimSpace text) \<and> \<not> HasPrefix text ''//''
            then Some (ExpressionStatement baseNode)
          else None))"

text \<open>
  \<open>extractStatements\<close>: \<open>nil\<close> for a \<open>nil\<close> node, otherwise the statements built from
  the direct children, in order, those built as \<open>nil\<close> left out.
\<close>

fun extractLoop :: "BaseNode list \<Rightarrow> Statement list \<Rightarrow> Statement list" where
  "extractLoop [] statements = statements"
| "extractLoop (child # rest) statements =
     (case buildStatement (Some child) of
        Some stmt \<Rightarrow> extractLoop rest (statements @ [stmt])
      | None \<Rightarrow> extractLoop rest statements)"

definition extractStatements :: "BaseNode option \<Rightarrow> Statement list" where
  "extractStatements nodePtr =
     (case nodePtr of None \<Rightarrow> [] | Some node \<Rightarrow> extractLoop (Children node) [])"

text \<open>\<open>Tree\<close> and \<open>ParseTree\<close>.\<close>

record Tree =
  Root :: "BaseNode option"
  Statements :: "Statement list"

definition ParseTree :: "Parser \<Rightarrow> string \<Rightarrow> (Tree option \<times> error option) outcome" where
  "ParseTree p source =
     (case Parse p source of
        Panics \<Rightarrow> Panics
      | Returns (root, Some err) \<Rightarrow> Returns (None, Some err)
      | Returns (root, None) \<Rightarrow>
          Returns (Some \<lparr>Root = root, Statements = extractStatements root\<rparr>, None))"

section \<open>Analyzer\<close>

text \<open>
  A value of the interface \<open>ast.Node\<close> is a pointer to a node, and \<open>Parent()\<close> follows
  its back-pointer. \<open>convertNode\<close> sets the back-pointer of every child to the node that
  holds it, and that of the root to \<open>nil\<close>. A pointer into a tree is therefore modelled
  as the node together with the chain that \<open>Parent()\<close>, \<open>Parent().Parent()\<close>, ... returns:
  its ancestors, nearest first. Such a chain is finite and no node is its own parent.
  Functions that never call \<open>Parent()\<close> take the node alone.
\<close>

type_synonym NodeRef = "BaseNode \<times> BaseNode list"

fun Parent :: "NodeRef \<Rightarrow> NodeRef option" where
  "Parent (node, []) = None"
| "Parent (node, p # ps) = Some (p, ps)"

text \<open>
  \<open>Analyzer\<close> holds \<open>root\<close>, possibly \<open>nil\<close>. A visitor is a Go closure: it returns a
  boolean and may change the variables it captured, the state \<open>'s\<close>.

  \<open>visitNode\<close> calls the visitor on the node; when the visitor returns \<open>false\<close> it
  returns, otherwise it visits the children in order. The children of the model are
  never \<open>nil\<close>.
\<close>

fun visitNode :: "(NodeRef \<Rightarrow> 's \<Rightarrow> bool \<times> 's) \<Rightarrow> BaseNode \<Rightarrow> BaseNode list \<Rightarrow> 's \<Rightarrow> 's" where
  "visitNode visitor (BaseNode t c children r) ancestors s =
     (case visitor (BaseNode t c children r, ancestors) s of
        (False, s') \<Rightarrow> s'
      | (True, s') \<Rightarrow>
          fold (\<lambda>child. visitNode visitor child (BaseNode t c children r # ancestors)) children s')"

fun Visit :: "NodeRef option \<Rightarrow> (NodeRef \<Rightarrow> 's \<Rightarrow> bool \<times> 's) \<Rightarrow> 's \<Rightarrow> 's" where
  "Visit None visitor s = s"
| "Visit (Some (root, ancestors)) visitor s = visitNode visitor root ancestors s"

text \<open>\<open>FindNodes\<close>: the visitor appends the matching nodes to \<open>results\<close> and always continues.\<close>

definition FindNodes :: "NodeRef option \<Rightarrow> (NodeRef \<Rightarrow> bool) \<Rightarrow> NodeRef list" where
  "FindNodes a predicate =
     Visit a (\<lambda>node results. (True, if predicate node then results @ [node] else results)) []"

definition FindNodesByType :: "NodeRef option \<Rightarrow> NodeType \<Rightarrow> NodeRef list" where
  "FindNodesByType a nodeType = FindNodes a (\<lambda>node. Type (fst node) = nodeType)"

definition FindFunctions :: "NodeRef option \<Rightarrow> NodeRef list" where
  "FindFunctions a =
     FindNodes a (\<lambda>node. let t = Type (fst node)
                         in t = NodeTypeFunction \<or> t = NodeTypeArrowFunction)"

text \<open>\<open>findIdentifierInChildren\<close>.\<close>

definition findIdentifierInChildren :: "BaseNode \<Rightarrow> string" where
  "findIdentifierInChildren node =
     (case firstIdentifier (Children node) of Some child \<Rightarrow> Text child | None \<Rightarrow> [])"

text \<open>\<open>isVariableNameForArrowFunction(parent, identifier, arrowFunc)\<close>.\<close>

definition isVariableNameForArrowFunction :: "BaseNode \<Rightarrow> BaseNode \<Rightarrow> BaseNode \<Rightarrow> bool" where
  "isVariableNameForArrowFunction parent identifier arrowFunc =
     (let parentText = Text parent;
          identifierText = Text identifier;
          arrowText = Text arrowFunc;
          identifierPos = Index parentText identifierText;
          arrowPos = Index parentText arrowText
      in if identifierPos = - 1 \<or> arrowPos = - 1 then False
         else identifierPos < arrowPos)"

text \<open>
  \<open>extractArrowFunctionName\<close>: \<open>current\<close> runs through the parent chain; at each
  \<open>current\<close> the inner loop returns the text of the first child tagged Identifier that
  \<open>isVariableNameForArrowFunction\<close> accepts. The safety test
  \<open>current.Parent() == current\<close> compares a node with its own parent and never holds on
  a chain of the model.
\<close>

fun arrowNameLoop :: "BaseNode list \<Rightarrow> BaseNode \<Rightarrow> string" where
  "arrowNameLoop [] node = []"
| "arrowNameLoop (current # rest) node =
     (case find (\<lambda>child. Type child = NodeTypeIdentifier
                         \<and> isVariableNameForArrowFunction current child node)
                (Children current) of
        Some child \<Rightarrow> Text child
      | None \<Rightarrow> arrowNameLoop rest node)"

definition extractArrowFunctionName :: "NodeRef \<Rightarrow> string" where
  "extractArrowFunctionName node = arrowNameLoop (snd node) (fst node)"

definition GetFunctionName :: "NodeRef option \<Rightarrow> string" where
  "GetFunctionName nodePtr =
     (case nodePtr of
        None \<Rightarrow> []
      | Some node \<Rightarrow>
          (let nodeType = Type (fst node) in
           if nodeType = NodeTypeFunction \<or> nodeType = NodeTypeMethod
             then findIdentifierInChildren (fst node)
           else if nodeType = NodeTypeArrowFunction
             then extractArrowFunctionName node
           else []))"

text \<open>
  \<open>CountParameters\<close>: \<open>0\<close> for \<open>nil\<close>; otherwise the closure \<open>countInNode\<close> is called on
  the node: it increments the captured \<open>count\<close> when the node is tagged Parameter and
  its trimmed text is neither empty nor starts with a parenthesis, then calls itself on
  every child.
\<close>

fun countInNode :: "BaseNode \<Rightarrow> int \<Rightarrow> int" where
  "countInNode (BaseNode t c children r) count =
     fold countInNode children
       (if t = NodeTypeParameter
        then (let text = TrimSpace c
              in if text \<noteq> [] \<and> \<not> HasPrefix text ''('' then count + 1 else count)
        else count)"

definition CountParameters :: "BaseNode option \<Rightarrow> int" where
  "CountParameters nodePtr = (case nodePtr of None \<Rightarrow> 0 | Some node \<Rightarrow> countInNode node 0)"

section \<open>Notions used in the statements\<close>

text \<open>The zero value of \<open>Range\<close>, as a node built by hand has it.\<close>

definition zeroRange :: SourceRange where
  "zeroRange = \<lparr>Start = \<lparr>Line = 0, Column = 0, Offset = 0\<rparr>,
                End = \<lparr>Line = 0, Column = 0, Offset = 0\<rparr>\<rparr>"

text \<open>All nodes of a tree, the root first; and the nodes strictly below the root.\<close>

fun nodes :: "BaseNode \<Rightarrow> BaseNode list" where
  "nodes (BaseNode t c children r) = BaseNode t c children r # concat (map nodes children)"

definition descendants :: "BaseNode \<Rightarrow> BaseNode list" where
  "descendants node = concat (map nodes (Children node))"

text \<open>
  The text of a node is the part of the source between the byte offsets of its range:
  the slice expression \<open>source[Start.Offset:End.Offset]\<close> returns it.
\<close>

definition textIsSourceSlice :: "string \<Rightarrow> BaseNode \<Rightarrow> bool" where
  "textIsSourceSlice source node =
     (slice source (unat (Offset (Start (Range node)))) (unat (Offset (End (Range node))))
        = Returns (Text node))"

text \<open>
  A node that \<open>countInNode\<close> counts: tagged Parameter, with a trimmed text that is
  neither empty nor starts with a parenthesis.
\<close>

definition countedParameter :: "BaseNode \<Rightarrow> bool" where
  "countedParameter node =
     (Type node = NodeTypeParameter \<and> TrimSpace (Text node) \<noteq> []
      \<and> \<not> HasPrefix (TrimSpace (Text node)) ''('')"



text \<open>
  Depth-first pre-order, written without a visitor: a node, then the pre-order of each of
  its children from left to right; every node comes with its chain of ancestors.
\<close>

fun preorder :: "BaseNode \<Rightarrow> BaseNode list \<Rightarrow> NodeRef list" where
  "preorder (BaseNode t c children r) ancestors =
     (BaseNode t c children r, ancestors)
       # concat (map (\<lambda>child. preorder child (BaseNode t c children r # ancestors)) children)"

text \<open>The ancestors of a node as pointers: the parent, the parent of the parent, ...\<close>

fun ancestorRefs :: "BaseNode list \<Rightarrow> NodeRef list" where
  "ancestorRefs [] = []"
| "ancestorRefs (p # ps) = (p, ps) # ancestorRefs ps"

text \<open>A node is reached when the visitor answers "continue" on each of its ancestors.\<close>

definition reached :: "(NodeRef \<Rightarrow> bool) \<Rightarrow> NodeRef \<Rightarrow> bool" where
  "reached continue node = list_all continue (ancestorRefs (snd node))"

text \<open>
  "The text \<open>x\<close> occurs, by substring position, before the text \<open>y\<close> within \<open>whole\<close>":
  both occur, and the first occurrence of \<open>x\<close> starts before the first occurrence of \<open>y\<close>.
\<close>

definition occursBefore :: "string \<Rightarrow> string \<Rightarrow> string \<Rightarrow> bool" where
  "occursBefore whole x y =
     (Index whole x \<noteq> - 1 \<and> Index whole y \<noteq> - 1 \<and> Index whole x < Index whole y)"

text \<open>
  The direct children of the ancestors, each with the ancestor that holds it: nearest
  ancestor first, and the children of one ancestor from left to right.
\<close>

definition nameCandidates :: "BaseNode list \<Rightarrow> (BaseNode \<times> BaseNode) list" where
  "nameCandidates ancestors =
     concat (map (\<lambda>ancestor. map (\<lambda>child. (ancestor, child)) (Children ancestor)) ancestors)"

text \<open>
  A candidate names the arrow function when it is tagged Identifier and its text occurs
  before the text of the arrow function within the text of its ancestor.
\<close>

definition isArrowName :: "BaseNode \<Rightarrow> BaseNode \<times> BaseNode \<Rightarrow> bool" where
  "isArrowName arrow candidate =
     (Type (snd candidate) = NodeTypeIdentifier
      \<and> occursBefore (Text (fst candidate)) (Text (snd candidate)) (Text arrow))"

text \<open>
  A visitor made to keep a log: it answers and acts as the given visitor does, and
  appends the node and the answer to the log.
\<close>

definition logging ::
  "(NodeRef \<Rightarrow> 's \<Rightarrow> bool \<times> 's) \<Rightarrow> NodeRef \<Rightarrow> 's \<times> (NodeRef \<times> bool) list
     \<Rightarrow> bool \<times> ('s \<times> (NodeRef \<times> bool) list)" where
  "logging visitor node state =
     (case state of (s, log) \<Rightarrow>
        (case visitor node s of (b, s') \<Rightarrow> (b, (s', log @ [(node, b)]))))"

text \<open>
  Reading a log as the traversal of a node: its first entry is the node; when the answer
  there is "stop", the traversal of the node ends with that entry; when it is "continue",
  the traversals of the children follow, from left to right. The result is what is left
  of the log behind the traversal, and \<open>None\<close> when the log does not start with one.
\<close>

fun traversal :: "BaseNode \<Rightarrow> BaseNode list \<Rightarrow> (NodeRef \<times> bool) list
                    \<Rightarrow> (NodeRef \<times> bool) list option" where
  "traversal (BaseNode t c children r) ancestors log =
     (case log of
        [] \<Rightarrow> None
      | (node, continue) # rest \<Rightarrow>
          if node \<noteq> (BaseNode t c children r, ancestors) then None
          else if continue
            then fold (\<lambda>child remaining.
                         case remaining of
                           None \<Rightarrow> None
                         | Some l \<Rightarrow> traversal child (BaseNode t c children r # ancestors) l)
                   children (Some rest)
          else Some rest)"

section \<open>The engine's trees for the scenarios\<close>

text \<open>
  A node of the engine on the first line of the source: row 0, and the column is the
  byte offset.
\<close>

definition tsn :: "string \<Rightarrow> nat \<Rightarrow> nat \<Rightarrow> TSNode list \<Rightarrow> TSNode" where
  "tsn kind s e cs =
     TSNode kind (of_nat s) (of_nat e) \<lparr>Row = 0, Col = of_nat s\<rparr> \<lparr>Row = 0, Col = of_nat e\<rparr>
       (map Some cs)"

text \<open>
  The concrete syntax tree of the TypeScript grammar for the source
  \<open>export async function f() {}\<close> (28 bytes).
\<close>

definition tree_export_async :: TSNode where
  "tree_export_async =
     tsn ''program'' 0 28
      [tsn ''export_statement'' 0 28
        [tsn ''export'' 0 6 [],
         tsn ''function_declaration'' 7 28
          [tsn ''async'' 7 12 [], tsn ''function'' 13 21 [], tsn ''identifier'' 22 23 [],
           tsn ''formal_parameters'' 23 25 [tsn ''('' 23 24 [], tsn '')'' 24 25 []],
           tsn ''statement_block'' 26 28 [tsn ''{'' 26 27 [], tsn ''}'' 27 28 []]]]]"

text \<open>The tree for the source \<open>const add = (a, b) => a + b;\<close> (28 bytes).\<close>

definition tree_const_add :: TSNode where
  "tree_const_add =
     tsn ''program'' 0 28
      [tsn ''lexical_declaration'' 0 28
        [tsn ''const'' 0 5 [],
         tsn ''variable_declarator'' 6 27
          [tsn ''identifier'' 6 9 [],
           tsn ''='' 10 11 [],
           tsn ''arrow_function'' 12 27
            [tsn ''formal_parameters'' 12 18
              [tsn ''('' 12 13 [],
               tsn ''required_parameter'' 13 14 [tsn ''identifier'' 13 14 []],
               tsn '','' 14 15 [],
               tsn ''required_parameter'' 16 17 [tsn ''identifier'' 16 17 []],
               tsn '')'' 17 18 []],
             tsn ''=>'' 19 21 [],
             tsn ''binary_expression'' 22 27
              [tsn ''identifier'' 22 23 [], tsn ''+'' 24 25 [], tsn ''identifier'' 26 27 []]]],
         tsn '';'' 27 28 []]]"

text \<open>The tree for the source \<open>for (const item of items) {}\<close> (28 bytes).\<close>

definition tree_for_of :: TSNode where
  "tree_for_of =
     tsn ''program'' 0 28
      [tsn ''for_in_statement'' 0 28
        [tsn ''for'' 0 3 [], tsn ''('' 4 5 [], tsn ''const'' 5 10 [],
         tsn ''identifier'' 11 15 [], tsn ''of'' 16 18 [], tsn ''identifier'' 19 24 [],
         tsn '')'' 24 25 [],
         tsn ''statement_block'' 26 28 [tsn ''{'' 26 27 [], tsn ''}'' 27 28 []]]]"

section \<open>Properties of the classifier\<close>

lemmas NodeType_defs =
  NodeTypeFunction_def NodeTypeArrowFunction_def NodeTypeMethod_def NodeTypeInterface_def
  NodeTypeTypeAlias_def NodeTypeExpression_def NodeTypeIdentifier_def NodeTypeLiteral_def
  NodeTypeProperty_def NodeTypeParameter_def NodeTypeUnknown_def

text \<open>
  Claim C4. The classifier written as a \<open>switch\<close> and the classifier written with the
  two maps are the same function of the raw kind tag, and so are the two versions of
  \<open>isExpressionType\<close>. A tag that is no key of \<open>nodeTypeMap\<close> is classified as
  Expression when it is one of the eight expression tags and as Unknown otherwise.
\<close>

theorem mapNodeType_switch_eq_map:
  "mapNodeType tsType = mapNodeType_map tsType
   \<and> isExpressionType tsType = isExpressionType_map tsType
   \<and> (nodeTypeMap tsType = None \<longrightarrow>
        mapNodeType tsType =
          (if tsType \<in> {''binary_expression'', ''unary_expression'', ''call_expression'',
                         ''member_expression'', ''assignment_expression'',
                         ''ternary_expression'', ''new_expression'', ''await_expression''}
           then NodeTypeExpression else NodeTypeUnknown))"
proof (intro conjI)
  show "mapNodeType tsType = mapNodeType_map tsType"
    by (simp add: mapNodeType_def mapNodeType_map_def nodeTypeMap_def expressionTypes_def
        isExpressionType_def expressionTypes_slice_def)
  show "isExpressionType tsType = isExpressionType_map tsType"
    by (simp add: isExpressionType_def isExpressionType_map_def expressionTypes_slice_def
        expressionTypes_def)
  show "nodeTypeMap tsType = None \<longrightarrow>
        mapNodeType tsType =
          (if tsType \<in> {''binary_expression'', ''unary_expression'', ''call_expression'',
                         ''member_expression'', ''assignment_expression'',
                         ''ternary_expression'', ''new_expression'', ''await_expression''}
           then NodeTypeExpression else NodeTypeUnknown)"
    by (simp add: mapNodeType_def nodeTypeMap_def isExpressionType_def expressionTypes_slice_def)
qed

theorem mapNodeType_switch_eq_map_witness:
  "nodeTypeMap ''await_expression'' = None
   \<and> mapNodeType ''await_expression'' = mapNodeType_map ''await_expression''
   \<and> mapNodeType ''await_expression'' = NodeTypeExpression
   \<and> nodeTypeMap ''program'' = None
   \<and> mapNodeType_map ''program'' = NodeTypeUnknown"
  using mapNodeType_switch_eq_map [of "''await_expression''"]
        mapNodeType_switch_eq_map [of "''program''"]
  by (auto simp add: nodeTypeMap_def)

section \<open>Facts about the string functions\<close>

lemma HasPrefix_Nil: "HasPrefix s []"
  by (simp add: HasPrefix_def)

lemma HasPrefix_Nil_Cons: "\<not> HasPrefix [] (c # p)"
  by (simp add: HasPrefix_def)

lemma HasPrefix_Cons_Cons: "HasPrefix (x # xs) (c # p) = (x = c \<and> HasPrefix xs p)"
  by (auto simp: HasPrefix_def)

lemmas HasPrefix_simps = HasPrefix_Nil HasPrefix_Nil_Cons HasPrefix_Cons_Cons

lemma HasPrefix_iff: "HasPrefix s p \<longleftrightarrow> (\<exists>r. s = p @ r)"
proof
  assume "HasPrefix s p"
  then have "s = p @ drop (length p) s"
    by (metis HasPrefix_def append_take_drop_id)
  then show "\<exists>r. s = p @ r" ..
next
  assume "\<exists>r. s = p @ r"
  then show "HasPrefix s p" by (auto simp: HasPrefix_def)
qed

lemmas TrimSpace_eval = TrimSpace_def trimLeading.simps whiteSpace_def HasPrefix_simps

section \<open>The engine enters only through its answer on the source\<close>

lemma Parse_engine: "p source = q source \<Longrightarrow> Parse p source = Parse q source"
  by (simp add: Parse_def)

lemma ParseTree_engine: "p source = q source \<Longrightarrow> ParseTree p source = ParseTree q source"
  by (simp add: ParseTree_def Parse_def)

section \<open>Properties of the statement reconstructor\<close>

lemma for_prefix_excludes:
  assumes "HasPrefix t ''for '' \<or> HasPrefix t ''for(''"
  shows "\<not> HasPrefix t ''const ''" "\<not> HasPrefix t ''let ''" "\<not> HasPrefix t ''var ''"
    "\<not> HasPrefix t ''function ''" "\<not> HasPrefix t ''async function''"
    "\<not> HasPrefix t ''class ''" "\<not> HasPrefix t ''abstract class''"
    "\<not> HasPrefix t ''if ''" "\<not> HasPrefix t ''if(''"
    "\<not> HasPrefix t ''while ''" "\<not> HasPrefix t ''while(''"
  using assms by (auto simp: HasPrefix_iff)

lemma for_of_scenario:
  "(case ParseTree (\<lambda>source. Some (TSTree (Some tree_for_of))) ''for (const item of items) {}'' of
      Returns (Some tree, None) \<Rightarrow>
        (case Statements tree of
           [ForOfStatement node isAwait] \<Rightarrow>
             \<not> isAwait \<and> Text node = ''for (const item of items) {}''
         | _ \<Rightarrow> False)
    | _ \<Rightarrow> False)"
  by code_simp

text \<open>
  Claim C3. A node whose trimmed text starts with \<open>for \<close> or \<open>for(\<close> is built as a
  ForOfStatement, with IsAwait telling whether the text contains \<open>await \<close>, when its text
  contains \<open> of \<close>; otherwise as a ForInStatement when its text contains \<open> in \<close>;
  otherwise as a ForStatement. When the engine parses \<open>for (const item of items) {}\<close>
  into its tree, \<open>ParseTree\<close> returns exactly one statement, a ForOfStatement of the
  whole source with IsAwait false.
\<close>

theorem for_family_rule:
  "(HasPrefix (TrimSpace (Text node)) ''for '' \<or> HasPrefix (TrimSpace (Text node)) ''for('' \<longrightarrow>
      buildStatement (Some node) =
        Some (if Contains (Text node) '' of ''
              then ForOfStatement node (Contains (Text node) ''await '')
              else if Contains (Text node) '' in '' then ForInStatement node
              else ForStatement node))
   \<and> (p ''for (const item of items) {}'' = Some (TSTree (Some tree_for_of)) \<longrightarrow>
        (case ParseTree p ''for (const item of items) {}'' of
           Returns (Some tree, None) \<Rightarrow>
             (case Statements tree of
                [ForOfStatement n isAwait] \<Rightarrow>
                  \<not> isAwait \<and> Text n = ''for (const item of items) {}''
              | _ \<Rightarrow> False)
         | _ \<Rightarrow> False))"
proof (intro conjI impI)
  assume a: "HasPrefix (TrimSpace (Text node)) ''for '' \<or> HasPrefix (TrimSpace (Text node)) ''for(''"
  show "buildStatement (Some node) =
        Some (if Contains (Text node) '' of ''
              then ForOfStatement node (Contains (Text node) ''await '')
              else if Contains (Text node) '' in '' then ForInStatement node
              else ForStatement node)"
    using a for_prefix_excludes [OF a]
    by (simp add: buildStatement_def buildForStatement_def Let_def)
next
  assume e: "p ''for (const item of items) {}'' = Some (TSTree (Some tree_for_of))"
  have "ParseTree p ''for (const item of items) {}'' =
        ParseTree (\<lambda>source. Some (TSTree (Some tree_for_of))) ''for (const item of items) {}''"
    by (rule ParseTree_engine) (simp add: e)
  with for_of_scenario
  show "(case ParseTree p ''for (const item of items) {}'' of
           Returns (Some tree, None) \<Rightarrow>
             (case Statements tree of
                [ForOfStatement n isAwait] \<Rightarrow>
                  \<not> isAwait \<and> Text n = ''for (const item of items) {}''
              | _ \<Rightarrow> False)
         | _ \<Rightarrow> False)"
    by simp
qed

theorem for_family_rule_witness:
  "HasPrefix (TrimSpace ''for(const k in o) {}'') ''for(''
   \<and> buildStatement (Some (BaseNode NodeTypeUnknown ''for(const k in o) {}'' [] zeroRange)) =
       Some (ForInStatement (BaseNode NodeTypeUnknown ''for(const k in o) {}'' [] zeroRange))
   \<and> (\<lambda>source. Some (TSTree (Some tree_for_of))) ''for (const item of items) {}''
        = Some (TSTree (Some tree_for_of))
   \<and> (case ParseTree (\<lambda>source. Some (TSTree (Some tree_for_of))) ''for (const item of items) {}'' of
         Returns (Some tree, None) \<Rightarrow>
           (case Statements tree of
              [ForOfStatement n isAwait] \<Rightarrow>
                \<not> isAwait \<and> Text n = ''for (const item of items) {}''
            | _ \<Rightarrow> False)
       | _ \<Rightarrow> False)"
proof -
  have h: "HasPrefix (TrimSpace ''for(const k in o) {}'') ''for(''"
    by (simp add: TrimSpace_eval)
  have c: "\<not> Contains ''for(const k in o) {}'' '' of ''" "Contains ''for(const k in o) {}'' '' in ''"
    by (simp_all add: Contains_def HasPrefix_simps)
  show ?thesis
    using h c
      for_family_rule [of "BaseNode NodeTypeUnknown ''for(const k in o) {}'' [] zeroRange"
        "\<lambda>source. Some (TSTree (Some tree_for_of))"]
    by simp
qed

text \<open>
  Claim C10. A node whose trimmed text starts with \<open>const \<close>, \<open>let \<close> or \<open>var \<close> is built
  as a VariableStatement, and its Kind is read off the whole text, not off the leading
  keyword: \<open>const\<close> when the text contains \<open>const \<close> anywhere, else \<open>let\<close> when it
  contains \<open>let \<close> anywhere, else \<open>var\<close>. So a declaration that starts with \<open>var \<close> or
  \<open>let \<close> and contains \<open>const \<close> further on has Kind \<open>const\<close>.
\<close>

theorem variable_kind_by_containment:
  "(HasPrefix (TrimSpace (Text node)) ''const '' \<or> HasPrefix (TrimSpace (Text node)) ''let ''
      \<or> HasPrefix (TrimSpace (Text node)) ''var '' \<longrightarrow>
      buildStatement (Some node) =
        Some (VariableStatement node
               (if Contains (Text node) ''const '' then ''const''
                else if Contains (Text node) ''let '' then ''let''
                else ''var'')))
   \<and> ((HasPrefix (TrimSpace (Text node)) ''var '' \<or> HasPrefix (TrimSpace (Text node)) ''let '')
        \<and> Contains (Text node) ''const '' \<longrightarrow>
        buildStatement (Some node) = Some (VariableStatement node ''const''))"
  by (simp add: buildStatement_def buildVariableStatement_def Let_def)

theorem variable_kind_by_containment_witness:
  "HasPrefix (TrimSpace ''var s = \"const x\";'') ''var ''
   \<and> Contains ''var s = \"const x\";'' ''const ''
   \<and> buildStatement (Some (BaseNode NodeTypeUnknown ''var s = \"const x\";'' [] zeroRange)) =
       Some (VariableStatement (BaseNode NodeTypeUnknown ''var s = \"const x\";'' [] zeroRange)
              ''const'')"
proof -
  have h: "HasPrefix (TrimSpace ''var s = \"const x\";'') ''var ''"
    by (simp add: TrimSpace_eval)
  have c: "Contains ''var s = \"const x\";'' ''const ''"
    by (simp add: Contains_def HasPrefix_simps)
  show ?thesis
    using h c
      variable_kind_by_containment [of "BaseNode NodeTypeUnknown ''var s = \"const x\";'' [] zeroRange"]
    by simp
qed

lemma export_async_scenario:
  "(case ParseTree (\<lambda>source. Some (TSTree (Some tree_export_async)))
           ''export async function f() {}'' of
      Returns (Some tree, None) \<Rightarrow>
        (case Statements tree of
           [ExportDeclaration node isDefault] \<Rightarrow>
             \<not> isDefault \<and> Text node = ''export async function f() {}''
         | _ \<Rightarrow> False)
    | _ \<Rightarrow> False)"
  by code_simp

text \<open>
  Claim C1, amended. A node whose trimmed text starts with \<open>export \<close> is built as an
  ExportDeclaration, with IsDefault telling whether the text contains \<open>export default\<close>.
  When the engine parses \<open>export async function f() {}\<close> into its tree, \<open>ParseTree\<close>
  returns exactly one statement, and that statement is an ExportDeclaration of the whole
  source whose IsDefault field is false.
\<close>

theorem export_prefix_builds_ExportDeclaration:
  "(HasPrefix (TrimSpace (Text node)) ''export '' \<longrightarrow>
      buildStatement (Some node) =
        Some (ExportDeclaration node (Contains (Text node) ''export default'')))
   \<and> (p ''export async function f() {}'' = Some (TSTree (Some tree_export_async)) \<longrightarrow>
        (case ParseTree p ''export async function f() {}'' of
           Returns (Some tree, None) \<Rightarrow>
             (case Statements tree of
                [ExportDeclaration n isDefault] \<Rightarrow>
                  \<not> isDefault \<and> Text n = ''export async function f() {}''
              | _ \<Rightarrow> False)
         | _ \<Rightarrow> False))"
proof (intro conjI impI)
  assume "HasPrefix (TrimSpace (Text node)) ''export ''"
  then obtain r where t: "TrimSpace (Text node) = ''export '' @ r"
    by (auto simp: HasPrefix_iff)
  show "buildStatement (Some node) =
        Some (ExportDeclaration node (Contains (Text node) ''export default''))"
    by (simp add: buildStatement_def buildExportDeclaration_def Let_def t HasPrefix_simps)
next
  assume e: "p ''export async function f() {}'' = Some (TSTree (Some tree_export_async))"
  have "ParseTree p ''export async function f() {}'' =
        ParseTree (\<lambda>source. Some (TSTree (Some tree_export_async)))
          ''export async function f() {}''"
    by (rule ParseTree_engine) (simp add: e)
  with export_async_scenario
  show "(case ParseTree p ''export async function f() {}'' of
           Returns (Some tree, None) \<Rightarrow>
             (case Statements tree of
                [ExportDeclaration n isDefault] \<Rightarrow>
                  \<not> isDefault \<and> Text n = ''export async function f() {}''
              | _ \<Rightarrow> False)
         | _ \<Rightarrow> False)"
    by simp
qed

theorem export_prefix_builds_ExportDeclaration_witness:
  "HasPrefix (TrimSpace ''export default class A {}'') ''export ''
   \<and> buildStatement (Some (BaseNode NodeTypeUnknown ''export default class A {}'' [] zeroRange)) =
       Some (ExportDeclaration
              (BaseNode NodeTypeUnknown ''export default class A {}'' [] zeroRange) True)
   \<and> (\<lambda>source. Some (TSTree (Some tree_export_async))) ''export async function f() {}''
        = Some (TSTree (Some tree_export_async))
   \<and> (case ParseTree (\<lambda>source. Some (TSTree (Some tree_export_async)))
              ''export async function f() {}'' of
         Returns (Some tree, None) \<Rightarrow>
           (case Statements tree of
              [ExportDeclaration n isDefault] \<Rightarrow>
                \<not> isDefault \<and> Text n = ''export async function f() {}''
            | _ \<Rightarrow> False)
       | _ \<Rightarrow> False)"
proof -
  have h: "HasPrefix (TrimSpace ''export default class A {}'') ''export ''"
    by (simp add: TrimSpace_eval)
  have c: "Contains ''export default class A {}'' ''export default''"
    by (simp add: Contains_def HasPrefix_simps)
  show ?thesis
    using h c
      export_prefix_builds_ExportDeclaration
        [of "BaseNode NodeTypeUnknown ''export default class A {}'' [] zeroRange"
          "\<lambda>source. Some (TSTree (Some tree_export_async))"]
    by simp
qed

text \<open>
  Claim C1 as first stated fails: on the engine's tree of \<open>export async function f() {}\<close>
  the statements returned by \<open>ParseTree\<close> are not a single FunctionDeclaration named
  \<open>f\<close> with IsAsync and IsExported true.
\<close>

theorem export_async_function_counterexample:
  "\<not> (case ParseTree (\<lambda>source. Some (TSTree (Some tree_export_async)))
             ''export async function f() {}'' of
        Returns (Some tree, None) \<Rightarrow>
          (case Statements tree of
             [FunctionDeclaration n name isAsync isExported isGenerator] \<Rightarrow>
               name = ''f'' \<and> isAsync \<and> isExported
           | _ \<Rightarrow> False)
      | _ \<Rightarrow> False)"
  by code_simp









section \<open>Properties of the parser\<close>

text \<open>
  Claim C6. \<open>Parse\<close> returns an error exactly when the source has length zero, or the
  engine returns no tree, or the tree has no root; with the error it returns no node,
  and without an error it returns a node. On the empty source the error is
  \<open>source code is empty\<close>.
\<close>

theorem Parse_fails_iff:
  "(case Parse p source of
      Returns (node, Some err) \<Rightarrow>
        node = None
        \<and> (length source = 0 \<or> p source = None \<or> map_option RootNode (p source) = Some None)
    | Returns (node, None) \<Rightarrow>
        node \<noteq> None
        \<and> \<not> (length source = 0 \<or> p source = None \<or> map_option RootNode (p source) = Some None)
    | Panics \<Rightarrow>
        \<not> (length source = 0 \<or> p source = None \<or> map_option RootNode (p source) = Some None))
   \<and> Parse p [] = Returns (None, Some ''source code is empty'')"
proof (cases "p source")
  case None
  then show ?thesis by (simp add: Parse_def)
next
  case (Some tree)
  show ?thesis
  proof (cases "RootNode tree")
    case None
    with Some show ?thesis by (simp add: Parse_def)
  next
    case (Some root)
    with \<open>p source = Some tree\<close> show ?thesis
      by (cases root) (auto simp add: Parse_def split: outcome.splits)
  qed
qed

theorem Parse_fails_iff_witness:
  "Parse (\<lambda>source. Some (TSTree (Some tree_for_of))) [] =
     Returns (None, Some ''source code is empty'')
   \<and> Parse (\<lambda>source. None) ''x'' = Returns (None, Some ''failed to parse source code'')
   \<and> Parse (\<lambda>source. Some (TSTree None)) ''x'' = Returns (None, Some ''failed to get root node'')"
  using Parse_fails_iff [where p = "\<lambda>source. Some (TSTree (Some tree_for_of))" and source = "[]"]
  by (simp add: Parse_def)

lemma convert_text:
  "convertNode n source = Returns (Some t) \<longrightarrow> list_all (textIsSourceSlice source) (nodes t)"
  "convertChildren cs source acc = Returns ts \<longrightarrow>
      list_all (\<lambda>t. list_all (textIsSourceSlice source) (nodes t)) acc \<longrightarrow>
      list_all (\<lambda>t. list_all (textIsSourceSlice source) (nodes t)) ts"
proof (induction n source and cs source acc arbitrary: t and ts
    rule: convertNode_convertChildren.induct)
  case (1 source)
  then show ?case by simp
next
  case (2 kind sb eb sp ep cs source)
  show ?case
  proof
    assume a: "convertNode (Some (TSNode kind sb eb sp ep cs)) source = Returns (Some t)"
    then obtain content where c: "slice source (unat sb) (unat eb) = Returns content"
      by (auto split: outcome.splits)
    with a obtain childNodes where ch: "convertChildren cs source [] = Returns childNodes"
      by (auto split: outcome.splits)
    from a c ch have t: "t = BaseNode (mapNodeType kind) content childNodes
                 \<lparr>Start = \<lparr>Line = Row sp, Column = Col sp, Offset = sb\<rparr>,
                  End = \<lparr>Line = Row ep, Column = Col ep, Offset = eb\<rparr>\<rparr>"
      by simp
    from "2.IH" [OF c] ch
    have "list_all (\<lambda>t. list_all (textIsSourceSlice source) (nodes t)) childNodes"
      by simp
    then have "list_all (textIsSourceSlice source) (concat (map nodes childNodes))"
      by (induction childNodes) auto
    with c show "list_all (textIsSourceSlice source) (nodes t)"
      by (simp add: t textIsSourceSlice_def)
  qed
next
  case (3 source childNodes)
  then show ?case by simp
next
  case (4 rest source childNodes)
  then show ?case by simp
next
  case (5 child rest source childNodes)
  show ?case
  proof (intro impI)
    assume a: "convertChildren (Some child # rest) source childNodes = Returns ts"
      and acc: "list_all (\<lambda>t. list_all (textIsSourceSlice source) (nodes t)) childNodes"
    show "list_all (\<lambda>t. list_all (textIsSourceSlice source) (nodes t)) ts"
    proof (cases "convertNode (Some child) source")
      case Panics
      with a show ?thesis by simp
    next
      case (Returns r)
      show ?thesis
      proof (cases r)
        case None
        with Returns a acc "5.IH"(2) show ?thesis by simp
      next
        case (Some childNode)
        with Returns "5.IH"(1)
        have "list_all (textIsSourceSlice source) (nodes childNode)" by simp
        with Some Returns a acc "5.IH"(3) show ?thesis by simp
      qed
    qed
  qed
qed

text \<open>
  Claim C7. In a tree that \<open>convertNode\<close> returns for a tree of the engine over a source,
  the text of every node, the root and every converted descendant, is the part of the
  source between the start offset and the end offset of the node's range.
\<close>

theorem convertNode_text_is_source_slice:
  "convertNode (Some n) source = Returns (Some t) \<Longrightarrow>
     list_all (textIsSourceSlice source) (nodes t)"
  using convert_text(1) by blast

lemma convert_for_of_returns:
  "(case convertNode (Some tree_for_of) ''for (const item of items) {}'' of
      Returns (Some t) \<Rightarrow> length (nodes t) = 12 | _ \<Rightarrow> False)"
  by code_simp

theorem convertNode_text_is_source_slice_witness:
  "(case convertNode (Some tree_for_of) ''for (const item of items) {}'' of
      Returns (Some t) \<Rightarrow>
        length (nodes t) = 12
        \<and> list_all (textIsSourceSlice ''for (const item of items) {}'') (nodes t)
    | _ \<Rightarrow> False)"
proof (cases "convertNode (Some tree_for_of) ''for (const item of items) {}''")
  case Panics
  with convert_for_of_returns show ?thesis by simp
next
  case (Returns r)
  show ?thesis
  proof (cases r)
    case None
    with Returns convert_for_of_returns show ?thesis by simp
  next
    case (Some t)
    with Returns convert_for_of_returns
      convertNode_text_is_source_slice
        [where n = tree_for_of and source = "''for (const item of items) {}''" and t = t]
    show ?thesis by simp
  qed
qed

section \<open>Properties of the analyzer\<close>

lemma fold_countInNode:
  assumes "\<And>c k. c \<in> set cs \<Longrightarrow>
             countInNode c k = k + int (length (filter countedParameter (nodes c)))"
  shows "fold countInNode cs k =
           k + int (length (filter countedParameter (concat (map nodes cs))))"
  using assms by (induction cs arbitrary: k) auto

lemma countInNode_eq:
  "countInNode n k = k + int (length (filter countedParameter (nodes n)))"
proof (induction n k rule: countInNode.induct)
  case (1 t c children r count)
  have "\<And>ch k. ch \<in> set children \<Longrightarrow>
          countInNode ch k = k + int (length (filter countedParameter (nodes ch)))"
    using "1.IH" by simp
  from fold_countInNode [OF this]
  have f: "fold countInNode children k =
        k + int (length (filter countedParameter (concat (map nodes children))))" for k .
  have h: "countedParameter (BaseNode t c children r) =
        (t = NodeTypeParameter \<and> TrimSpace c \<noteq> [] \<and> \<not> HasPrefix (TrimSpace c) ''('')"
    by (simp add: countedParameter_def)
  show ?case
    by (simp add: f h Let_def)
qed

text \<open>
  Claim C9, amended. \<open>CountParameters\<close> returns 0 for \<open>nil\<close>; for a node it returns the
  number of nodes of the subtree rooted at the node, the node itself included, that are
  tagged Parameter and whose trimmed text is neither empty nor starts with \<open>(\<close>: the
  number of such descendants, plus one when the node given as argument is such a node.
\<close>

theorem CountParameters_counts_subtree:
  "CountParameters None = 0
   \<and> CountParameters (Some node) = int (length (filter countedParameter (nodes node)))
   \<and> CountParameters (Some node) =
       (if countedParameter node then 1 else 0)
         + int (length (filter countedParameter (descendants node)))"
  by (cases node) (simp add: CountParameters_def countInNode_eq descendants_def)

text \<open>
  Claim C9 as first stated fails on a node that is itself a parameter: the node
  \<open>a\<close> of kind \<open>required_parameter\<close>, whose only child is the identifier \<open>a\<close>, has
  no counted descendant, and \<open>CountParameters\<close> returns 1 on it.
\<close>

theorem CountParameters_argument_counterexample:
  "CountParameters
     (Some (BaseNode NodeTypeParameter ''a'' [BaseNode NodeTypeIdentifier ''a'' [] zeroRange]
              zeroRange)) = 1
   \<and> filter countedParameter
        (descendants (BaseNode NodeTypeParameter ''a''
           [BaseNode NodeTypeIdentifier ''a'' [] zeroRange] zeroRange)) = []"
  by (simp add: CountParameters_def descendants_def countedParameter_def NodeType_defs
      TrimSpace_eval)

lemma ancestorRefs_up:
  "(a, p # ps) \<in> set (ancestorRefs b) \<Longrightarrow> (p, ps) \<in> set (ancestorRefs b)"
  by (induction b) auto

lemma preorder_ancestor:
  "x \<in> set (preorder n anc) \<Longrightarrow> x = (n, anc) \<or> (n, anc) \<in> set (ancestorRefs (snd x))"
proof (induction n anc arbitrary: x rule: preorder.induct)
  case (1 t c children r ancestors)
  show ?case
  proof (cases "x = (BaseNode t c children r, ancestors)")
    case True
    then show ?thesis by simp
  next
    case False
    with "1.prems" obtain child where ch: "child \<in> set children"
      and x: "x \<in> set (preorder child (BaseNode t c children r # ancestors))"
      by auto
    from "1.IH" [OF ch x]
    have "(BaseNode t c children r, ancestors) \<in> set (ancestorRefs (snd x))"
      by (cases x) (auto dest: ancestorRefs_up)
    then show ?thesis by simp
  qed
qed

lemma fold_visit:
  assumes "\<And>child s. child \<in> set cs \<Longrightarrow> f child s = fold e (filter P (g child)) s"
  shows "fold f cs s = fold e (filter P (concat (map g cs))) s"
  using assms by (induction cs arbitrary: s) auto

lemma visitNode_pruned:
  "list_all continue (ancestorRefs anc) \<Longrightarrow>
   visitNode (\<lambda>node s. (continue node, effect node s)) n anc s =
     fold effect (filter (reached continue) (preorder n anc)) s"
proof (induction "\<lambda>node s. (continue node, effect node s)" n anc s rule: visitNode.induct)
  case (1 t c children r ancestors s)
  let ?n = "BaseNode t c children r"
  have here: "reached continue (?n, ancestors)"
    using "1.prems" by (simp add: reached_def)
  show ?case
  proof (cases "continue (?n, ancestors)")
    case True
    have below: "list_all continue (ancestorRefs (?n # ancestors))"
      using True "1.prems" by simp
    have "\<And>child s'. child \<in> set children \<Longrightarrow>
            visitNode (\<lambda>node s. (continue node, effect node s)) child (?n # ancestors) s' =
            fold effect (filter (reached continue) (preorder child (?n # ancestors))) s'"
      using "1.hyps" True below by simp
    from fold_visit [where f = "\<lambda>child. visitNode (\<lambda>node s. (continue node, effect node s)) child (?n # ancestors)"
        and e = effect and P = "reached continue" and g = "\<lambda>child. preorder child (?n # ancestors)", OF this]
    show ?thesis using True here by simp
  next
    case False
    have "\<not> reached continue x"
      if "x \<in> set (concat (map (\<lambda>child. preorder child (?n # ancestors)) children))" for x
    proof -
      from that obtain child where "child \<in> set children"
        and "x \<in> set (preorder child (?n # ancestors))" by auto
      from preorder_ancestor [OF this(2)]
      have "(?n, ancestors) \<in> set (ancestorRefs (snd x))" by (auto dest: ancestorRefs_up)
      with False show ?thesis by (auto simp: reached_def list_all_iff)
    qed
    then have "filter (reached continue) (concat (map (\<lambda>child. preorder child (?n # ancestors)) children)) = []"
      by (simp add: filter_empty_conv del: set_concat)
    with False here show ?thesis by simp
  qed
qed

lemma fold_logging:
  assumes "\<And>child s l. child \<in> set cs \<Longrightarrow>
     \<exists>tr. visitNode (logging v) child anc (s, l) = (visitNode v child anc s, l @ tr)
          \<and> (\<forall>k. traversal child anc (tr @ k) = Some k)"
  shows "\<exists>tr. fold (\<lambda>child. visitNode (logging v) child anc) cs (s, l)
              = (fold (\<lambda>child. visitNode v child anc) cs s, l @ tr)
          \<and> (\<forall>k. fold (\<lambda>child remaining. case remaining of None \<Rightarrow> None
                                   | Some l \<Rightarrow> traversal child anc l) cs (Some (tr @ k)) = Some k)"
  using assms
proof (induction cs arbitrary: s l)
  case Nil
  then show ?case by simp
next
  case (Cons c cs)
  from Cons.prems [of c s l] obtain tr1 where
    1: "visitNode (logging v) c anc (s, l) = (visitNode v c anc s, l @ tr1)"
    and t1: "\<And>k. traversal c anc (tr1 @ k) = Some k" by auto
  from Cons.IH [of "visitNode v c anc s" "l @ tr1"] Cons.prems obtain tr2 where
    2: "fold (\<lambda>child. visitNode (logging v) child anc) cs (visitNode v c anc s, l @ tr1)
          = (fold (\<lambda>child. visitNode v child anc) cs (visitNode v c anc s), (l @ tr1) @ tr2)"
    and t2: "\<And>k. fold (\<lambda>child remaining. case remaining of None \<Rightarrow> None
                                   | Some l \<Rightarrow> traversal child anc l) cs (Some (tr2 @ k)) = Some k"
    by (metis list.set_intros(2))
  show ?case
  proof (intro exI conjI allI)
    show "fold (\<lambda>child. visitNode (logging v) child anc) (c # cs) (s, l)
        = (fold (\<lambda>child. visitNode v child anc) (c # cs) s, l @ (tr1 @ tr2))"
      using 1 2 by simp
    show "fold (\<lambda>child remaining. case remaining of None \<Rightarrow> None
                 | Some l \<Rightarrow> traversal child anc l) (c # cs) (Some ((tr1 @ tr2) @ k)) = Some k" for k
      using t1 [of "tr2 @ k"] t2 [of k] by simp
  qed
qed

lemma visitNode_logging:
  "\<exists>tr. visitNode (logging v) n anc (s, l) = (visitNode v n anc s, l @ tr)
        \<and> (\<forall>k. traversal n anc (tr @ k) = Some k)"
proof (induction v n anc s arbitrary: l rule: visitNode.induct)
  case (1 visitor t c children r ancestors s)
  let ?n = "BaseNode t c children r"
  obtain b s' where v: "visitor (?n, ancestors) s = (b, s')" by (cases "visitor (?n, ancestors) s")
  show ?case
  proof (cases b)
    case False
    have "visitNode (logging visitor) ?n ancestors (s, l)
            = (visitNode visitor ?n ancestors s, l @ [((?n, ancestors), False)])"
      using v False by (simp add: logging_def)
    moreover have "\<forall>k. traversal ?n ancestors ([((?n, ancestors), False)] @ k) = Some k"
      by simp
    ultimately show ?thesis by blast
  next
    case True
    have "\<And>child s l. child \<in> set children \<Longrightarrow>
       \<exists>tr. visitNode (logging visitor) child (?n # ancestors) (s, l)
               = (visitNode visitor child (?n # ancestors) s, l @ tr)
          \<and> (\<forall>k. traversal child (?n # ancestors) (tr @ k) = Some k)"
      using "1.IH" v True by simp
    from fold_logging [where v = visitor and anc = "?n # ancestors" and cs = children
        and s = s' and l = "l @ [((?n, ancestors), True)]", OF this]
    obtain tr where
      f: "fold (\<lambda>child. visitNode (logging visitor) child (?n # ancestors)) children
            (s', l @ [((?n, ancestors), True)])
          = (fold (\<lambda>child. visitNode visitor child (?n # ancestors)) children s',
             (l @ [((?n, ancestors), True)]) @ tr)"
      and t: "\<And>k. fold (\<lambda>child remaining. case remaining of None \<Rightarrow> None
                 | Some l \<Rightarrow> traversal child (?n # ancestors) l) children (Some (tr @ k)) = Some k"
      by blast
    have "visitNode (logging visitor) ?n ancestors (s, l)
            = (visitNode visitor ?n ancestors s, l @ (((?n, ancestors), True) # tr))"
      using v True f by (simp add: logging_def)
    moreover have "\<forall>k. traversal ?n ancestors ((((?n, ancestors), True) # tr) @ k) = Some k"
      using t by simp
    ultimately show ?thesis by blast
  qed
qed

text \<open>
  Claim C5. \<open>Visit\<close> on a \<open>nil\<close> root calls the visitor not once and leaves the state
  as it is. On a tree, for a visitor whose answer depends on the node it is called on,
  the visitor is called, in depth-first pre-order, on exactly the nodes all of whose
  ancestors it answered "continue" on: "stop" on a node skips the nodes below that node
  and nothing else. For every visitor, whatever its answers depend on, the calls it
  receives are a traversal of the tree in which each "stop" ends the traversal of that
  one node, and the traversal goes on with the next sibling at every level.
\<close>

theorem Visit_preorder_stop_is_local:
  "Visit None visitor s = s
   \<and> Visit (Some (root, [])) (\<lambda>node st. (continue node, effect node st)) s =
       fold effect (filter (reached continue) (preorder root [])) s
   \<and> (case Visit (Some (root, [])) (logging visitor) (s, []) of
         (s', log) \<Rightarrow>
           s' = Visit (Some (root, [])) visitor s \<and> traversal root [] log = Some [])"
proof (intro conjI)
  show "Visit None visitor s = s" by simp
  show "Visit (Some (root, [])) (\<lambda>node st. (continue node, effect node st)) s =
       fold effect (filter (reached continue) (preorder root [])) s"
    using visitNode_pruned [of "continue" "[]" effect root s] by simp
  from visitNode_logging [of visitor root "[]" s "[]"] obtain tr where
    r: "visitNode (logging visitor) root [] (s, []) = (visitNode visitor root [] s, tr)"
    and t: "\<forall>k. traversal root [] (tr @ k) = Some k" by auto
  from t have "traversal root [] (tr @ []) = Some []" by blast
  with r show "(case Visit (Some (root, [])) (logging visitor) (s, []) of
         (s', log) \<Rightarrow>
           s' = Visit (Some (root, [])) visitor s \<and> traversal root [] log = Some [])"
    by simp
qed

theorem Visit_preorder_stop_is_local_witness:
  "Visit (Some (BaseNode NodeTypeFunction ''r''
                  [BaseNode NodeTypeParameter ''a''
                     [BaseNode NodeTypeIdentifier ''a1'' [] zeroRange] zeroRange,
                   BaseNode NodeTypeIdentifier ''b'' [] zeroRange] zeroRange, []))
     (\<lambda>node st. (Type (fst node) \<noteq> NodeTypeParameter, st @ [Text (fst node)])) []
   = [''r'', ''a'', ''b'']"
  using Visit_preorder_stop_is_local
    [where root = "BaseNode NodeTypeFunction ''r''
                  [BaseNode NodeTypeParameter ''a''
                     [BaseNode NodeTypeIdentifier ''a1'' [] zeroRange] zeroRange,
                   BaseNode NodeTypeIdentifier ''b'' [] zeroRange] zeroRange"
      and continue = "\<lambda>node. Type (fst node) \<noteq> NodeTypeParameter"
      and effect = "\<lambda>node st. st @ [Text (fst node)]"
      and s = "[]"]
  by (simp add: reached_def NodeType_defs)

lemma find_append_option:
  "find P (xs @ ys) = (case find P xs of None \<Rightarrow> find P ys | Some x \<Rightarrow> Some x)"
  by (induction xs) auto

lemma find_map_option: "find P (map f xs) = map_option f (find (\<lambda>x. P (f x)) xs)"
  by (induction xs) auto

lemma arrowNameLoop_first_candidate:
  "arrowNameLoop ancestors node =
     (case find (isArrowName node) (nameCandidates ancestors) of
        Some candidate \<Rightarrow> Text (snd candidate)
      | None \<Rightarrow> [])"
proof (induction ancestors)
  case Nil
  then show ?case by (simp add: nameCandidates_def)
next
  case (Cons a ancestors)
  have c: "nameCandidates (a # ancestors) =
             map (\<lambda>child. (a, child)) (Children a) @ nameCandidates ancestors"
    by (simp add: nameCandidates_def)
  have p: "(\<lambda>child. isArrowName node (a, child)) =
     (\<lambda>child. Type child = NodeTypeIdentifier \<and> isVariableNameForArrowFunction a child node)"
    by (auto simp: isArrowName_def occursBefore_def isVariableNameForArrowFunction_def
        Let_def fun_eq_iff)
  show ?case
    by (simp add: c find_append_option find_map_option p Cons.IH split: option.split)
qed

lemma const_add_scenario:
  "(case Parse (\<lambda>source. Some (TSTree (Some tree_const_add))) ''const add = (a, b) => a + b;'' of
      Returns (Some root, None) \<Rightarrow>
        (case FindFunctions (Some (root, [])) of
           [fn] \<Rightarrow> Type (fst fn) = NodeTypeArrowFunction \<and> GetFunctionName (Some fn) = ''add''
         | _ \<Rightarrow> False)
    | _ \<Rightarrow> False)"
  by code_simp

text \<open>
  Claim C2. When the engine parses \<open>const add = (a, b) => a + b;\<close> into its tree,
  \<open>FindFunctions\<close> on the parsed root returns exactly one node, tagged ArrowFunction, and
  \<open>GetFunctionName\<close> returns \<open>add\<close> on it. On every node tagged ArrowFunction the name
  is found by walking the parent chain upward: among the direct children of the
  ancestors, nearest ancestor first, the first one tagged Identifier whose text occurs,
  by substring position, before the text of the arrow function within the text of that
  ancestor gives the name; with no such child the name is empty.
\<close>

theorem arrow_function_name_recovery:
  "(p ''const add = (a, b) => a + b;'' = Some (TSTree (Some tree_const_add)) \<longrightarrow>
      (case Parse p ''const add = (a, b) => a + b;'' of
         Returns (Some root, None) \<Rightarrow>
           (case FindFunctions (Some (root, [])) of
              [fn] \<Rightarrow>
                Type (fst fn) = NodeTypeArrowFunction \<and> GetFunctionName (Some fn) = ''add''
            | _ \<Rightarrow> False)
       | _ \<Rightarrow> False))
   \<and> (Type node = NodeTypeArrowFunction \<longrightarrow>
        GetFunctionName (Some (node, ancestors)) =
          (case find (isArrowName node) (nameCandidates ancestors) of
             Some candidate \<Rightarrow> Text (snd candidate)
           | None \<Rightarrow> []))"
proof (intro conjI impI)
  assume e: "p ''const add = (a, b) => a + b;'' = Some (TSTree (Some tree_const_add))"
  have "Parse p ''const add = (a, b) => a + b;'' =
        Parse (\<lambda>source. Some (TSTree (Some tree_const_add))) ''const add = (a, b) => a + b;''"
    by (rule Parse_engine) (simp add: e)
  with const_add_scenario
  show "(case Parse p ''const add = (a, b) => a + b;'' of
         Returns (Some root, None) \<Rightarrow>
           (case FindFunctions (Some (root, [])) of
              [fn] \<Rightarrow>
                Type (fst fn) = NodeTypeArrowFunction \<and> GetFunctionName (Some fn) = ''add''
            | _ \<Rightarrow> False)
       | _ \<Rightarrow> False)"
    by simp
next
  assume a: "Type node = NodeTypeArrowFunction"
  have "NodeTypeArrowFunction \<noteq> NodeTypeFunction" "NodeTypeArrowFunction \<noteq> NodeTypeMethod"
    by (simp_all add: NodeType_defs)
  with a show "GetFunctionName (Some (node, ancestors)) =
          (case find (isArrowName node) (nameCandidates ancestors) of
             Some candidate \<Rightarrow> Text (snd candidate)
           | None \<Rightarrow> [])"
    by (simp add: GetFunctionName_def extractArrowFunctionName_def Let_def
        arrowNameLoop_first_candidate)
qed

theorem arrow_function_name_recovery_witness:
  "(\<lambda>source. Some (TSTree (Some tree_const_add))) ''const add = (a, b) => a + b;''
      = Some (TSTree (Some tree_const_add))
   \<and> (case Parse (\<lambda>source. Some (TSTree (Some tree_const_add)))
              ''const add = (a, b) => a + b;'' of
         Returns (Some root, None) \<Rightarrow>
           (case FindFunctions (Some (root, [])) of
              [fn] \<Rightarrow>
                Type (fst fn) = NodeTypeArrowFunction \<and> GetFunctionName (Some fn) = ''add''
            | _ \<Rightarrow> False)
       | _ \<Rightarrow> False)
   \<and> Type (BaseNode NodeTypeArrowFunction ''() => 42'' [] zeroRange) = NodeTypeArrowFunction
   \<and> GetFunctionName
        (Some (BaseNode NodeTypeArrowFunction ''() => 42'' [] zeroRange,
               [BaseNode NodeTypeUnknown ''method: () => 42''
                  [BaseNode NodeTypeUnknown ''method'' [] zeroRange,
                   BaseNode NodeTypeArrowFunction ''() => 42'' [] zeroRange] zeroRange,
                BaseNode NodeTypeUnknown ''obj = { method: () => 42 }''
                  [BaseNode NodeTypeIdentifier ''obj'' [] zeroRange,
                   BaseNode NodeTypeUnknown ''{ method: () => 42 }'' [] zeroRange] zeroRange]))
       = ''obj''"
  using arrow_function_name_recovery
    [where p = "\<lambda>source. Some (TSTree (Some tree_const_add))"
      and node = "BaseNode NodeTypeArrowFunction ''() => 42'' [] zeroRange"
      and ancestors = "[BaseNode NodeTypeUnknown ''method: () => 42''
                  [BaseNode NodeTypeUnknown ''method'' [] zeroRange,
                   BaseNode NodeTypeArrowFunction ''() => 42'' [] zeroRange] zeroRange,
                BaseNode NodeTypeUnknown ''obj = { method: () => 42 }''
                  [BaseNode NodeTypeIdentifier ''obj'' [] zeroRange,
                   BaseNode NodeTypeUnknown ''{ method: () => 42 }'' [] zeroRange] zeroRange]"]
  by (simp add: nameCandidates_def isArrowName_def occursBefore_def NodeType_defs
      HasPrefix_simps)

end
